theory Spec2Isabelle
  imports Main "HOL-Library.AList" "HOL-Library.Multiset"
begin

section \<open>Errors\<close>

text \<open>
  Every \<^verbatim>\<open>raise HTTPException(status_code=.., detail=..)\<close> of \<^verbatim>\<open>main.py\<close> is the value
  \<open>HTTPException status detail\<close>. \<open>ConfigurationError\<close> is what pymongo's
  \<^verbatim>\<open>get_default_database()\<close> raises when the client has no default database, and
  \<open>IndexError\<close> is Python's error for a list index out of range; neither is caught
  anywhere in \<^verbatim>\<open>main.py\<close>.
\<close>

datatype error = HTTPException nat string | ConfigurationError | IndexError

section \<open>Configuration (main.py, lines 26-28)\<close>

record config =
  JWT_SECRET :: string
  ACCESS_EXPIRES_MIN :: int
  REFRESH_EXPIRES_DAYS :: int

definition default_config :: config where
  "default_config =
     \<lparr>JWT_SECRET = ''dev-secret-change-me'', ACCESS_EXPIRES_MIN = 30, REFRESH_EXPIRES_DAYS = 7\<rparr>"

section \<open>Token payloads and the JWT library\<close>

text \<open>
  A token payload is a Python dict from claim names to JSON scalars. It is an association
  list with \<open>AList.update\<close> for item assignment (an existing key keeps its place, a new
  one goes last, as in a Python dict) and \<open>py_get\<close> for \<^verbatim>\<open>payload.get(k)\<close>, which is
  \<^verbatim>\<open>None\<close> for an absent key.
\<close>

datatype json = JNull | JBool bool | JInt int | JStr string

type_synonym claims = "(string \<times> json) list"

definition py_get :: "claims \<Rightarrow> string \<Rightarrow> json" where
  "py_get payload k = (case map_of payload k of None \<Rightarrow> JNull | Some v \<Rightarrow> v)"

text \<open>Python truthiness, as used by \<^verbatim>\<open>if not uid\<close> and \<^verbatim>\<open>if username\<close>.\<close>

fun truthy :: "json \<Rightarrow> bool" where
  "truthy JNull = False"
| "truthy (JBool b) = b"
| "truthy (JInt i) = (i \<noteq> 0)"
| "truthy (JStr s) = (s \<noteq> [])"

fun truthy_str :: "string option \<Rightarrow> bool" where
  "truthy_str None = False"
| "truthy_str (Some s) = (s \<noteq> [])"

fun truthy_int :: "int option \<Rightarrow> bool" where
  "truthy_int None = False"
| "truthy_int (Some i) = (i \<noteq> 0)"

text \<open>
  PyJWT with HS256 is modelled symbolically: a token string is either the signing of a
  payload under a key, or any other string. Decoding checks the signature first (the key
  must be the one the token was signed with), then the \<^verbatim>\<open>exp\<close> claim: the token is expired
  when \<open>exp \<le> now\<close>. Time is counted in whole seconds since the epoch, the resolution of
  the \<^verbatim>\<open>exp\<close> claim.
\<close>

datatype token = Signed string claims | Malformed string

datatype jwt_error = ExpiredSignatureError | InvalidTokenError

definition jwt_encode :: "claims \<Rightarrow> string \<Rightarrow> token" where
  "jwt_encode payload key = Signed key payload"

fun jwt_decode :: "token \<Rightarrow> string \<Rightarrow> int \<Rightarrow> jwt_error + claims" where
  "jwt_decode (Malformed s) key now = Inl InvalidTokenError"
| "jwt_decode (Signed k payload) key now =
     (if k \<noteq> key then Inl InvalidTokenError
      else (case map_of payload ''exp'' of
              None \<Rightarrow> Inr payload
            | Some (JInt e) \<Rightarrow> if e \<le> now then Inl ExpiredSignatureError else Inr payload
            | Some _ \<Rightarrow> Inl InvalidTokenError))"

text \<open>\<^verbatim>\<open>create_token\<close> (lines 49-54); \<open>expires_delta\<close> is in seconds.\<close>

definition create_token :: "config \<Rightarrow> int \<Rightarrow> claims \<Rightarrow> int \<Rightarrow> token" where
  "create_token cfg now payload expires_delta =
     (let exp = now + expires_delta;
          to_encode = AList.update ''exp'' (JInt exp) payload
      in jwt_encode to_encode (JWT_SECRET cfg))"

definition minutes :: "int \<Rightarrow> int" where
  "minutes m = 60 * m"

definition days :: "int \<Rightarrow> int" where
  "days d = 86400 * d"

text \<open>\<^verbatim>\<open>decode_token\<close> (lines 57-63).\<close>

definition decode_token :: "config \<Rightarrow> int \<Rightarrow> token \<Rightarrow> error + claims" where
  "decode_token cfg now tok =
     (case jwt_decode tok (JWT_SECRET cfg) now of
        Inr payload \<Rightarrow> Inr payload
      | Inl ExpiredSignatureError \<Rightarrow> Inl (HTTPException 401 ''Token expired'')
      | Inl InvalidTokenError \<Rightarrow> Inl (HTTPException 401 ''Invalid token''))"

section \<open>Documents and the store\<close>

text \<open>
  The collections hold the documents of \<^verbatim>\<open>schemas.py\<close>. Each record below has the fields
  that \<^verbatim>\<open>main.py\<close> reads, under a prefix that keeps the field names of different
  collections apart. A field read with \<^verbatim>\<open>.get\<close> or through a query is optional: \<open>None\<close>
  is a document without it. An \<^verbatim>\<open>_id\<close> is what MongoDB stores: an ObjectId (given by its
  hexadecimal text, which is what \<^verbatim>\<open>str\<close> returns) when \<^verbatim>\<open>insert_one\<close> generated it, or a
  string when the document was stored with one. Amounts (\<^verbatim>\<open>nominal\<close>, \<^verbatim>\<open>total_bersih\<close>) are
  Python numbers; they are elements of a type \<open>'n\<close> of which only \<open>0\<close> and \<open>+\<close> are used
  and nothing is assumed.
\<close>

datatype bson_id = ObjectId string | StringId string

fun str_id :: "bson_id \<Rightarrow> string" where
  "str_id (ObjectId hex) = hex"
| "str_id (StringId s) = s"

record User =
  u_id :: bson_id
  u_username :: "string option"
  u_email :: "string option"
  u_password_hash :: "string option"
  u_role :: "string option"

record RefreshToken =
  rt_user_id :: string
  rt_token :: token
  rt_expires_at :: int
  rt_created_at :: int

record Santri =
  s_id :: bson_id
  s_gender :: "string option"
  s_asrama :: "string option"
  s_kelas :: "string option"
  s_aktif :: "bool option"

record 'n Transaksi =
  tr_jenis :: "string option"
  tr_nominal :: "'n option"

record 'n PembayaranSyariah =
  ps_santri_id :: "string option"
  ps_tahun :: "int option"
  ps_bulan :: "string option"
  ps_status :: "string option"
  ps_nominal :: "'n option"

record 'n GajiPegawai =
  gp_tahun :: "int option"
  gp_bulan :: "int option"
  gp_status :: "string option"
  gp_total_bersih :: "'n option"

text \<open>
  The database handle \<^verbatim>\<open>db\<close> of the missing module \<^verbatim>\<open>database.py\<close> is a parameter:
  \<open>None\<close> when no database is configured, else the collections, together with whether
  the client was created with a default database (which line 74 asks for).
\<close>

record 'n database =
  default_database :: bool
  user :: "User list"
  refreshtoken :: "RefreshToken list"
  santri :: "Santri list"
  transaksi :: "'n Transaksi list"
  pembayaransyariah :: "'n PembayaranSyariah list"
  gajipegawai :: "'n GajiPegawai list"

text \<open>\<^verbatim>\<open>collection\<close> (lines 35-38); the collection name is the selector \<open>name\<close>.\<close>

definition collection :: "'n database option \<Rightarrow> ('n database \<Rightarrow> 'a) \<Rightarrow> error + 'a" where
  "collection db name =
     (case db of
        None \<Rightarrow> Inl (HTTPException 500 ''Database not available'')
      | Some d \<Rightarrow> Inr (name d))"

text \<open>pymongo's \<^verbatim>\<open>find_one\<close>, \<^verbatim>\<open>find\<close>, \<^verbatim>\<open>count_documents\<close> and \<^verbatim>\<open>insert_one\<close> on a collection
  kept in insertion order; a query is the predicate it denotes.\<close>

definition find_one :: "('a \<Rightarrow> bool) \<Rightarrow> 'a list \<Rightarrow> 'a option" where
  "find_one q docs = List.find q docs"

definition find_docs :: "('a \<Rightarrow> bool) \<Rightarrow> 'a list \<Rightarrow> 'a list" where
  "find_docs q docs = filter q docs"

definition count_documents :: "('a \<Rightarrow> bool) \<Rightarrow> 'a list \<Rightarrow> nat" where
  "count_documents q docs = length (filter q docs)"

definition insert_one :: "'a \<Rightarrow> 'a list \<Rightarrow> 'a list" where
  "insert_one doc docs = docs @ [doc]"

text \<open>Equality of a stored value with a JSON value taken from a token: a string field
  equals the same JSON string, and a string \<^verbatim>\<open>_id\<close> equals the same JSON string; an
  ObjectId equals no JSON value.\<close>

fun str_field_eq :: "string option \<Rightarrow> json \<Rightarrow> bool" where
  "str_field_eq (Some s) (JStr t) = (s = t)"
| "str_field_eq None JNull = True"
| "str_field_eq _ _ = False"

fun id_eq :: "bson_id \<Rightarrow> json \<Rightarrow> bool" where
  "id_eq (StringId s) (JStr t) = (s = t)"
| "id_eq _ _ = False"

fun json_of_str :: "string option \<Rightarrow> json" where
  "json_of_str None = JNull"
| "json_of_str (Some s) = JStr s"

definition get_or :: "'a option \<Rightarrow> 'a \<Rightarrow> 'a" where
  "get_or field dflt = (case field of None \<Rightarrow> dflt | Some v \<Rightarrow> v)"

section \<open>Authentication\<close>

text \<open>
  \<^verbatim>\<open>get_current_user\<close> (lines 66-83). \<open>credentials\<close> is the bearer token of the request,
  \<open>None\<close> when the request has none. Line 74 looks a placeholder up and drops the
  result; evaluating its argument raises when the client has no default database.
\<close>

definition get_current_user ::
  "config \<Rightarrow> 'n database option \<Rightarrow> int \<Rightarrow> token option \<Rightarrow> error + User" where
  "get_current_user cfg db now credentials =
     (case credentials of
        None \<Rightarrow> Inl (HTTPException 401 ''Not authenticated'')
      | Some tok \<Rightarrow>
          (case decode_token cfg now tok of
             Inl e \<Rightarrow> Inl e
           | Inr payload \<Rightarrow>
               (let uid = py_get payload ''uid'' in
                if \<not> truthy uid then Inl (HTTPException 401 ''Invalid token payload'')
                else
                  (case db of
                     None \<Rightarrow> Inl (HTTPException 500 ''Database not available'')
                   | Some d \<Rightarrow>
                       if \<not> default_database d then Inl ConfigurationError
                       else
                         (let usr = find_one (\<lambda>u. id_eq (u_id u) uid) (user d);
                              usr = (case usr of
                                       Some u \<Rightarrow> Some u
                                     | None \<Rightarrow>
                                         (let username = py_get payload ''username'' in
                                          if truthy username
                                          then find_one (\<lambda>u. str_field_eq (u_username u) username) (user d)
                                          else None))
                          in case usr of
                               None \<Rightarrow> Inl (HTTPException 401 ''User not found'')
                             | Some u \<Rightarrow> Inr u)))))"

text \<open>
  \<^verbatim>\<open>login\<close> (lines 122-142). \<open>verify_password\<close> is passlib's bcrypt check, a parameter.
  The handler runs at the instant \<open>now\<close> and returns its result with the store it leaves.
  \<open>login_query\<close> is the query \<^verbatim>\<open>q\<close> of line 126.
\<close>

definition login_query :: "string option \<Rightarrow> string option \<Rightarrow> User \<Rightarrow> bool" where
  "login_query username email =
     (if truthy_str username then (\<lambda>u. u_username u = username) else (\<lambda>u. u_email u = email))"

record user_info =
  i_username :: "string option"
  i_email :: "string option"
  i_role :: string

record login_response =
  access_token :: token
  refresh_token_of :: token
  user_of :: user_info

definition login ::
  "config \<Rightarrow> (string \<Rightarrow> string \<Rightarrow> bool) \<Rightarrow> 'n database option \<Rightarrow> int \<Rightarrow>
   string option \<Rightarrow> string option \<Rightarrow> string \<Rightarrow> (error + login_response) \<times> 'n database option" where
  "login cfg verify_password db now username email password =
     (if \<not> truthy_str username \<and> \<not> truthy_str email
      then (Inl (HTTPException 400 ''Provide username or email''), db)
      else
        (case db of
           None \<Rightarrow> (Inl (HTTPException 500 ''Database not available''), db)
         | Some d \<Rightarrow>
             (let q = login_query username email
              in case find_one q (user d) of
                   None \<Rightarrow> (Inl (HTTPException 401 ''Invalid credentials''), db)
                 | Some usr \<Rightarrow>
                     if \<not> verify_password password (get_or (u_password_hash usr) '''')
                     then (Inl (HTTPException 401 ''Invalid credentials''), db)
                     else
                       (let access = create_token cfg now
                              [(''uid'', JStr (str_id (u_id usr))),
                               (''username'', json_of_str (u_username usr)),
                               (''role'', JStr (get_or (u_role usr) ''admin''))]
                              (minutes (ACCESS_EXPIRES_MIN cfg));
                            refresh = create_token cfg now
                              [(''uid'', JStr (str_id (u_id usr))), (''type'', JStr ''refresh'')]
                              (days (REFRESH_EXPIRES_DAYS cfg));
                            doc = \<lparr>rt_user_id = str_id (u_id usr), rt_token = refresh,
                                   rt_expires_at = now + days (REFRESH_EXPIRES_DAYS cfg),
                                   rt_created_at = now\<rparr>;
                            d' = d\<lparr>refreshtoken := insert_one doc (refreshtoken d)\<rparr>
                        in (Inr \<lparr>access_token = access, refresh_token_of = refresh,
                                 user_of = \<lparr>i_username = u_username usr, i_email = u_email usr,
                                            i_role = get_or (u_role usr) ''admin''\<rparr>\<rparr>,
                            Some d')))))"

text \<open>\<^verbatim>\<open>refresh_token\<close> (lines 145-156); the response is the new access token.\<close>

definition refresh_token ::
  "config \<Rightarrow> 'n database option \<Rightarrow> int \<Rightarrow> token \<Rightarrow> (error + token) \<times> 'n database option" where
  "refresh_token cfg db now tok =
     (case decode_token cfg now tok of
        Inl e \<Rightarrow> (Inl e, db)
      | Inr payload \<Rightarrow>
          if py_get payload ''type'' \<noteq> JStr ''refresh''
          then (Inl (HTTPException 400 ''Invalid refresh token''), db)
          else
            (case collection db refreshtoken of
               Inl e \<Rightarrow> (Inl e, db)
             | Inr tokens \<Rightarrow>
                 (case find_one (\<lambda>r. rt_token r = tok) tokens of
                    None \<Rightarrow> (Inl (HTTPException 401 ''Refresh token not recognized''), db)
                  | Some token_doc \<Rightarrow>
                      (let uid = py_get payload ''uid'';
                           access = create_token cfg now [(''uid'', uid)]
                                      (minutes (ACCESS_EXPIRES_MIN cfg))
                       in (Inr access, db)))))"

section \<open>The summary\<close>

text \<open>\<^verbatim>\<open>MONTHS\<close> and \<^verbatim>\<open>month_name\<close> (lines 409-416). \<open>py_index\<close> is Python's list indexing:
  a negative index counts from the end and an index out of range raises.\<close>

definition MONTHS :: "string list" where
  "MONTHS = [''Januari'', ''Februari'', ''Maret'', ''April'', ''Mei'', ''Juni'',
             ''Juli'', ''Agustus'', ''September'', ''Oktober'', ''November'', ''Desember'']"

definition py_index :: "'a list \<Rightarrow> int \<Rightarrow> error + 'a" where
  "py_index xs i =
     (if 0 \<le> i \<and> i < int (length xs) then Inr (xs ! nat i)
      else if i < 0 \<and> - int (length xs) \<le> i then Inr (xs ! nat (int (length xs) + i))
      else Inl IndexError)"

definition month_name :: "int \<Rightarrow> error + string" where
  "month_name m = (if 1 \<le> m \<and> m \<le> 12 then py_index MONTHS (m - 1) else Inr '''')"

text \<open>Python's \<^verbatim>\<open>sum\<close>: a left fold of \<open>+\<close> from \<open>0\<close>.\<close>

definition py_sum :: "'n::{zero,plus} list \<Rightarrow> 'n" where
  "py_sum xs = foldl (+) 0 xs"

text \<open>
  The query dicts of \<^verbatim>\<open>summary\<close>: an absent key is \<open>None\<close>. The value under
  \<^verbatim>\<open>santri_id\<close> is either \<^verbatim>\<open>{"$in": ids}\<close> or a plain string.
\<close>

datatype id_cond = In "string list" | Is string

record sy_filt =
  sy_tahun :: "int option"
  sy_bulan :: "string option"
  sy_santri_id :: "id_cond option"

record s_filt =
  sf_gender :: "string option"
  sf_asrama :: "string option"
  sf_kelas :: "string option"

record gaji_filt =
  gf_tahun :: "int option"
  gf_bulan :: "int option"

definition field_matches :: "'a option \<Rightarrow> 'a option \<Rightarrow> bool" where
  "field_matches wanted field = (case wanted of None \<Rightarrow> True | Some v \<Rightarrow> field = Some v)"

fun id_cond_matches :: "id_cond option \<Rightarrow> string option \<Rightarrow> bool" where
  "id_cond_matches None field = True"
| "id_cond_matches (Some (Is s)) field = (field = Some s)"
| "id_cond_matches (Some (In ids)) None = False"
| "id_cond_matches (Some (In ids)) (Some s) = (s \<in> set ids)"

definition s_matches :: "s_filt \<Rightarrow> Santri \<Rightarrow> bool" where
  "s_matches f s \<longleftrightarrow>
     field_matches (sf_gender f) (s_gender s) \<and>
     field_matches (sf_asrama f) (s_asrama s) \<and>
     field_matches (sf_kelas f) (s_kelas s)"

definition sy_matches :: "sy_filt \<Rightarrow> 'n PembayaranSyariah \<Rightarrow> bool" where
  "sy_matches f p \<longleftrightarrow>
     field_matches (sy_tahun f) (ps_tahun p) \<and>
     field_matches (sy_bulan f) (ps_bulan p) \<and>
     id_cond_matches (sy_santri_id f) (ps_santri_id p)"

definition gaji_matches :: "gaji_filt \<Rightarrow> 'n GajiPegawai \<Rightarrow> bool" where
  "gaji_matches f g \<longleftrightarrow>
     field_matches (gf_tahun f) (gp_tahun g) \<and>
     field_matches (gf_bulan f) (gp_bulan g)"

definition keep :: "bool \<Rightarrow> 'a option \<Rightarrow> 'a option" where
  "keep given v = (if given then v else None)"

text \<open>Lines 358-368: the payment query; \<^verbatim>\<open>month_name\<close> is called only for a truthy month.\<close>

definition summary_sy_filt ::
  "'n database \<Rightarrow> int option \<Rightarrow> int option \<Rightarrow> string option \<Rightarrow> string option \<Rightarrow>
   string option \<Rightarrow> error + sy_filt" where
  "summary_sy_filt d tahun bulan asrama kelas gender =
     (let f = \<lparr>sy_tahun = None, sy_bulan = None, sy_santri_id = None\<rparr>;
          f = (if truthy_int tahun then f\<lparr>sy_tahun := tahun\<rparr> else f)
      in case (case bulan of
                 None \<Rightarrow> Inr f
               | Some m \<Rightarrow>
                   if m \<noteq> 0
                   then (case month_name m of
                           Inl e \<Rightarrow> Inl e
                         | Inr name \<Rightarrow> Inr (f\<lparr>sy_bulan := Some name\<rparr>))
                   else Inr f) of
           Inl e \<Rightarrow> Inl e
         | Inr f \<Rightarrow>
             if truthy_str gender \<or> truthy_str asrama \<or> truthy_str kelas
             then
               (let sf = \<lparr>sf_gender = keep (truthy_str gender) gender,
                          sf_asrama = keep (truthy_str asrama) asrama,
                          sf_kelas = keep (truthy_str kelas) kelas\<rparr>;
                    ids = map (\<lambda>s. str_id (s_id s)) (find_docs (s_matches sf) (santri d))
                in Inr (f\<lparr>sy_santri_id := Some (if ids \<noteq> [] then In ids else Is ''__none__'')\<rparr>))
             else Inr f)"

text \<open>Lines 378-380: the payroll query. The month is the number.\<close>

definition summary_gaji_filt :: "int option \<Rightarrow> int option \<Rightarrow> gaji_filt" where
  "summary_gaji_filt tahun bulan =
     (let f = \<lparr>gf_tahun = None, gf_bulan = None\<rparr>;
          f = (if truthy_int tahun then f\<lparr>gf_tahun := tahun\<rparr> else f);
          f = (if truthy_int bulan then f\<lparr>gf_bulan := bulan\<rparr> else f)
      in f)"

record 'n report =
  total_santri_aktif :: nat
  total_pemasukan :: 'n
  total_pengeluaran :: 'n
  pembayaran_syariah_lunas :: nat
  pembayaran_syariah_belum :: nat
  jumlah_tunggakan :: 'n
  total_gaji_bulan_ini :: 'n
  total_gaji_tertunda :: 'n

text \<open>
  \<^verbatim>\<open>summary\<close> (lines 346-394). The \<^verbatim>\<open>user\<close> argument is the principal that
  \<open>get_current_user\<close> resolved before the body runs; the body does not read it.
\<close>

definition summary ::
  "('n::{zero,plus}) database option \<Rightarrow> int option \<Rightarrow> int option \<Rightarrow> string option \<Rightarrow>
   string option \<Rightarrow> string option \<Rightarrow> error + 'n report" where
  "summary db tahun bulan asrama kelas gender =
     (case db of
        None \<Rightarrow> Inl (HTTPException 500 ''Database not available'')
      | Some d \<Rightarrow>
          (let total_santri = count_documents (\<lambda>s. s_aktif s = Some True) (santri d)
           in case summary_sy_filt d tahun bulan asrama kelas gender of
                Inl e \<Rightarrow> Inl e
              | Inr f \<Rightarrow>
                  (let total_pemasukan = py_sum (map (\<lambda>x. get_or (tr_nominal x) 0)
                           (find_docs (\<lambda>x. tr_jenis x = Some ''pemasukan'') (transaksi d)));
                       total_pengeluaran = py_sum (map (\<lambda>x. get_or (tr_nominal x) 0)
                           (find_docs (\<lambda>x. tr_jenis x = Some ''pengeluaran'') (transaksi d)));
                       pembayaran = find_docs (sy_matches f) (pembayaransyariah d);
                       pembayaran_lunas = filter (\<lambda>p. ps_status p = Some ''Lunas'') pembayaran;
                       pembayaran_belum = filter (\<lambda>p. ps_status p \<noteq> Some ''Lunas'') pembayaran;
                       gaji_items = find_docs (gaji_matches (summary_gaji_filt tahun bulan))
                                      (gajipegawai d)
                   in Inr \<lparr>total_santri_aktif = total_santri,
                           total_pemasukan = total_pemasukan,
                           total_pengeluaran = total_pengeluaran,
                           pembayaran_syariah_lunas = length pembayaran_lunas,
                           pembayaran_syariah_belum = length pembayaran_belum,
                           jumlah_tunggakan =
                             py_sum (map (\<lambda>p. get_or (ps_nominal p) 0) pembayaran_belum),
                           total_gaji_bulan_ini = py_sum (map (\<lambda>g. get_or (gp_total_bersih g) 0)
                               (filter (\<lambda>g. gp_status g = Some ''Dibayar'') gaji_items)),
                           total_gaji_tertunda = py_sum (map (\<lambda>g. get_or (gp_total_bersih g) 0)
                               (filter (\<lambda>g. gp_status g \<noteq> Some ''Dibayar'') gaji_items))\<rparr>)))"

section \<open>Example stores\<close>

text \<open>A password check for the examples: the stored hash is the password behind a tag.\<close>

definition example_verify :: "string \<Rightarrow> string \<Rightarrow> bool" where
  "example_verify password password_hash \<longleftrightarrow> password_hash = ''bcrypt:'' @ password"

text \<open>The user that \<^verbatim>\<open>seed_admin\<close> inserts (lines 94-102), under a generated ObjectId.\<close>

definition admin :: User where
  "admin = \<lparr>u_id = ObjectId ''65a1b2c3d4e5f60718293a4b'', u_username = Some ''admin'',
            u_email = Some ''bendahara@gmail.com'', u_password_hash = Some ''bcrypt:bendahara'',
            u_role = Some ''admin''\<rparr>"

text \<open>A user document that was stored with a string \<^verbatim>\<open>_id\<close>.\<close>

definition operator :: User where
  "operator = \<lparr>u_id = StringId ''u1'', u_username = Some ''operator'',
               u_email = Some ''operator@example.org'', u_password_hash = Some ''bcrypt:rahasia'',
               u_role = Some ''admin''\<rparr>"

definition empty_db :: "int database" where
  "empty_db = \<lparr>default_database = True, user = [], refreshtoken = [], santri = [],
               transaksi = [], pembayaransyariah = [], gajipegawai = []\<rparr>"

definition seeded_db :: "int database" where
  "seeded_db = empty_db\<lparr>user := [admin]\<rparr>"

definition operator_db :: "int database" where
  "operator_db = empty_db\<lparr>user := [operator]\<rparr>"

text \<open>The refresh token that \<open>login\<close> issues to \<open>admin\<close> at time 1000 under the default
  configuration, and the store that the login leaves.\<close>

definition admin_refresh :: token where
  "admin_refresh = Signed ''dev-secret-change-me''
     [(''uid'', JStr ''65a1b2c3d4e5f60718293a4b''), (''type'', JStr ''refresh''),
      (''exp'', JInt 605800)]"

definition admin_session_db :: "int database" where
  "admin_session_db = seeded_db\<lparr>refreshtoken :=
     [\<lparr>rt_user_id = ''65a1b2c3d4e5f60718293a4b'', rt_token = admin_refresh,
       rt_expires_at = 605800, rt_created_at = 1000\<rparr>]\<rparr>"

text \<open>The same for \<open>operator\<close>.\<close>

definition operator_refresh :: token where
  "operator_refresh = Signed ''dev-secret-change-me''
     [(''uid'', JStr ''u1''), (''type'', JStr ''refresh''), (''exp'', JInt 605800)]"

definition operator_session_db :: "int database" where
  "operator_session_db = operator_db\<lparr>refreshtoken :=
     [\<lparr>rt_user_id = ''u1'', rt_token = operator_refresh,
       rt_expires_at = 605800, rt_created_at = 1000\<rparr>]\<rparr>"

text \<open>A store with no santri and one unpaid payment whose \<^verbatim>\<open>santri_id\<close> is the text
  \<^verbatim>\<open>__none__\<close>, as \<^verbatim>\<open>POST /syariah\<close> accepts it (\<^verbatim>\<open>santri_id: str\<close>).\<close>

definition sentinel_db :: "int database" where
  "sentinel_db = empty_db\<lparr>pembayaransyariah :=
     [\<lparr>ps_santri_id = Some ''__none__'', ps_tahun = Some 2024, ps_bulan = Some ''Januari'',
       ps_status = Some ''Belum'', ps_nominal = Some 300000\<rparr>]\<rparr>"

text \<open>A store with a paid, an unpaid and a status-less payment, and payroll records of
  each status.\<close>

definition ledger_db :: "int database" where
  "ledger_db = empty_db\<lparr>
     pembayaransyariah :=
       [\<lparr>ps_santri_id = Some ''s1'', ps_tahun = Some 2024, ps_bulan = Some ''Maret'',
         ps_status = Some ''Lunas'', ps_nominal = Some 500000\<rparr>,
        \<lparr>ps_santri_id = Some ''s1'', ps_tahun = Some 2024, ps_bulan = Some ''Maret'',
         ps_status = Some ''Belum'', ps_nominal = Some 300000\<rparr>,
        \<lparr>ps_santri_id = Some ''s2'', ps_tahun = Some 2024, ps_bulan = Some ''Maret'',
         ps_status = None, ps_nominal = Some 100000\<rparr>],
     gajipegawai :=
       [\<lparr>gp_tahun = Some 2024, gp_bulan = Some 3, gp_status = Some ''Dibayar'',
         gp_total_bersih = Some 2000000\<rparr>,
        \<lparr>gp_tahun = Some 2024, gp_bulan = Some 3, gp_status = Some ''Belum'',
         gp_total_bersih = Some 1500000\<rparr>,
        \<lparr>gp_tahun = Some 2024, gp_bulan = Some 3, gp_status = None,
         gp_total_bersih = Some 700000\<rparr>]\<rparr>"

text \<open>Two users that share an e-mail address, and two that share a username.\<close>

definition guru1 :: User where
  "guru1 = \<lparr>u_id = ObjectId ''65a1b2c3d4e5f60718293a61'', u_username = Some ''guru1'',
            u_email = Some ''guru@example.org'', u_password_hash = Some ''bcrypt:satu'',
            u_role = Some ''admin''\<rparr>"

definition guru2 :: User where
  "guru2 = \<lparr>u_id = ObjectId ''65a1b2c3d4e5f60718293a62'', u_username = Some ''guru2'',
            u_email = Some ''guru@example.org'', u_password_hash = Some ''bcrypt:dua'',
            u_role = Some ''admin''\<rparr>"

definition shared_email_db :: "int database" where
  "shared_email_db = empty_db\<lparr>user := [guru1, guru2]\<rparr>"








definition admin_access :: token where
  "admin_access = Signed ''dev-secret-change-me''
     [(''uid'', JStr ''65a1b2c3d4e5f60718293a4b''), (''username'', JStr ''admin''),
      (''role'', JStr ''admin''), (''exp'', JInt 2800)]"

section \<open>Auxiliary facts\<close>

lemma py_index_MONTHS:
  "1 \<le> m \<Longrightarrow> m \<le> 12 \<Longrightarrow> py_index MONTHS (m - 1) = Inr (MONTHS ! nat (m - 1))"
  by (simp add: py_index_def MONTHS_def)

lemma month_name_eq:
  "month_name m = Inr (if 1 \<le> m \<and> m \<le> 12 then MONTHS ! nat (m - 1) else '''')"
  by (simp add: month_name_def py_index_MONTHS)

lemma summary_sy_filt_total:
  "\<exists>f. summary_sy_filt d tahun bulan asrama kelas gender = Inr f"
  by (cases bulan) (simp_all add: summary_sy_filt_def Let_def month_name_eq)


lemma decode_token_cases:
  "decode_token cfg now tok = Inr payload \<Longrightarrow> tok = Signed (JWT_SECRET cfg) payload"
  by (cases tok) (auto simp: decode_token_def split: if_splits option.splits json.splits)

lemma decode_token_Signed:
  "decode_token cfg now (Signed k payload) =
     (if k \<noteq> JWT_SECRET cfg then Inl (HTTPException 401 ''Invalid token'')
      else case map_of payload ''exp'' of
             None \<Rightarrow> Inr payload
           | Some (JInt e) \<Rightarrow>
               if e \<le> now then Inl (HTTPException 401 ''Token expired'') else Inr payload
           | Some _ \<Rightarrow> Inl (HTTPException 401 ''Invalid token''))"
  by (auto simp: decode_token_def split: option.splits json.splits)

lemma find_one_None_iff: "find_one q docs = None \<longleftrightarrow> (\<forall>x \<in> set docs. \<not> q x)"
  by (auto simp: find_one_def find_None_iff)


text \<open>A query on a unique key finds the one document that carries the key.\<close>

lemma find_one_unique:
  assumes "distinct (map key docs)" and "x \<in> set docs" and "\<And>y. q y \<longleftrightarrow> key y = key x"
  shows "find_one q docs = Some x"
  using assms(1,2) unfolding find_one_def
proof (induction docs)
  case Nil
  then show ?case by simp
next
  case (Cons a docs)
  show ?case
  proof (cases "a = x")
    case True
    then show ?thesis by (simp add: assms(3))
  next
    case False
    with Cons.prems have "x \<in> set docs" "key a \<noteq> key x" by auto
    with Cons show ?thesis by (simp add: assms(3))
  qed
qed

text \<open>What the two minting sites put into an access token. At \<open>login\<close> (line 131) the
  claims are \<^verbatim>\<open>uid\<close>, \<^verbatim>\<open>username\<close>, \<^verbatim>\<open>role\<close> and \<^verbatim>\<open>exp\<close>; at \<open>refresh_token\<close> (line 155)
  they are \<^verbatim>\<open>uid\<close> and \<^verbatim>\<open>exp\<close> only.\<close>

lemma login_access_token_claims:
  assumes "login cfg verify_password db now username email password = (Inr resp, db')"
  shows "\<exists>usr :: User. access_token resp = Signed (JWT_SECRET cfg)
           [(''uid'', JStr (str_id (u_id usr))), (''username'', json_of_str (u_username usr)),
            (''role'', JStr (get_or (u_role usr) ''admin'')),
            (''exp'', JInt (now + 60 * ACCESS_EXPIRES_MIN cfg))]"
proof (cases db)
  case None
  with assms show ?thesis
    by (simp add: login_def split: if_splits)
next
  case (Some d)
  show ?thesis
  proof (cases "find_one (login_query username email) (user d)")
    case None
    with assms Some show ?thesis
      by (simp add: login_def split: if_splits)
  next
    case found: (Some usr)
    with assms Some have "access_token resp = create_token cfg now
       [(''uid'', JStr (str_id (u_id usr))), (''username'', json_of_str (u_username usr)),
        (''role'', JStr (get_or (u_role usr) ''admin''))] (minutes (ACCESS_EXPIRES_MIN cfg))"
      by (auto simp: login_def Let_def split: if_splits)
    then have "access_token resp = Signed (JWT_SECRET cfg)
           [(''uid'', JStr (str_id (u_id usr))), (''username'', json_of_str (u_username usr)),
            (''role'', JStr (get_or (u_role usr) ''admin'')),
            (''exp'', JInt (now + 60 * ACCESS_EXPIRES_MIN cfg))]"
      by (simp add: create_token_def jwt_encode_def minutes_def)
    then show ?thesis by blast
  qed
qed

lemma refresh_access_token_claims:
  assumes "refresh_token cfg db now tok = (Inr access, db')"
  shows "\<exists>uid. access = Signed (JWT_SECRET cfg)
           [(''uid'', uid), (''exp'', JInt (now + 60 * ACCESS_EXPIRES_MIN cfg))]"
  using assms
  by (auto simp: refresh_token_def collection_def Let_def create_token_def jwt_encode_def
      minutes_def split: sum.splits if_splits option.splits)

text \<open>When the santri query selects at least one santri, the payment query keeps exactly
  the payments of the selected santri (line 368, the \<^verbatim>\<open>$in\<close> branch).\<close>

lemma in_cond_restricts:
  "id_cond_matches (Some (In ids)) (ps_santri_id p) \<longleftrightarrow>
     (\<exists>s. ps_santri_id p = Some s \<and> s \<in> set ids)"
  by (cases "ps_santri_id p") auto

text \<open>\<open>find_one\<close> returns the first document that the query matches.\<close>

lemma find_one_first:
  assumes "\<forall>x \<in> set pre. \<not> q x" and "q x"
  shows "find_one q (pre @ x # post) = Some x"
  using assms unfolding find_one_def
  by (induction pre) simp_all


section \<open>Login and the credential check\<close>

text \<open>
  Claim C2, as amended. A login attempt on an available store names its user by the
  username when a non-empty one is supplied and by the e-mail address otherwise, and
  \<open>login\<close> examines the first stored user that carries this identifier, no other.
  When no stored user carries the identifier, and when the hash of the first one that
  does fails to verify the password, \<open>login\<close> returns the same error, status 401 with
  the detail \<^verbatim>\<open>Invalid credentials\<close>, and leaves the store as it was. When the hash of
  the first stored user that carries the identifier verifies the password, \<open>login\<close>
  succeeds, returns that user, binds both tokens to that user's id and stores the refresh
  token. Where usernames are unique, any stored user whose username and password are
  supplied is the one returned.
\<close>

theorem login_first_match:
  "(\<forall>name. username = Some name \<and> name \<noteq> [] \<and>
      (\<forall>u \<in> set (user d). u_username u \<noteq> Some name) \<longrightarrow>
      login cfg verify_password (Some d) now username email password =
        (Inl (HTTPException 401 ''Invalid credentials''), Some d)) \<and>
   (\<forall>addr. \<not> truthy_str username \<and> email = Some addr \<and> addr \<noteq> [] \<and>
      (\<forall>u \<in> set (user d). u_email u \<noteq> Some addr) \<longrightarrow>
      login cfg verify_password (Some d) now username email password =
        (Inl (HTTPException 401 ''Invalid credentials''), Some d)) \<and>
   (\<forall>pre U post.
      user d = pre @ U # post \<and>
      ((\<exists>name. username = Some name \<and> name \<noteq> [] \<and> u_username U = Some name \<and>
           (\<forall>u \<in> set pre. u_username u \<noteq> Some name)) \<or>
       (\<exists>addr. \<not> truthy_str username \<and> email = Some addr \<and> addr \<noteq> [] \<and>
           u_email U = Some addr \<and> (\<forall>u \<in> set pre. u_email u \<noteq> Some addr))) \<longrightarrow>
      (if verify_password password (get_or (u_password_hash U) '''')
       then login cfg verify_password (Some d) now username email password =
         (Inr \<lparr>access_token = Signed (JWT_SECRET cfg)
                  [(''uid'', JStr (str_id (u_id U))), (''username'', json_of_str (u_username U)),
                   (''role'', JStr (get_or (u_role U) ''admin'')),
                   (''exp'', JInt (now + 60 * ACCESS_EXPIRES_MIN cfg))],
                refresh_token_of = Signed (JWT_SECRET cfg)
                  [(''uid'', JStr (str_id (u_id U))), (''type'', JStr ''refresh''),
                   (''exp'', JInt (now + 86400 * REFRESH_EXPIRES_DAYS cfg))],
                user_of = \<lparr>i_username = u_username U, i_email = u_email U,
                           i_role = get_or (u_role U) ''admin''\<rparr>\<rparr>,
          Some (d\<lparr>refreshtoken := refreshtoken d @
             [\<lparr>rt_user_id = str_id (u_id U),
               rt_token = Signed (JWT_SECRET cfg)
                  [(''uid'', JStr (str_id (u_id U))), (''type'', JStr ''refresh''),
                   (''exp'', JInt (now + 86400 * REFRESH_EXPIRES_DAYS cfg))],
               rt_expires_at = now + 86400 * REFRESH_EXPIRES_DAYS cfg,
               rt_created_at = now\<rparr>]\<rparr>))
       else login cfg verify_password (Some d) now username email password =
         (Inl (HTTPException 401 ''Invalid credentials''), Some d))) \<and>
   (\<forall>name U. username = Some name \<and> name \<noteq> [] \<and> U \<in> set (user d) \<and>
      u_username U = Some name \<and> distinct (map u_username (user d)) \<and>
      verify_password password (get_or (u_password_hash U) '''') \<longrightarrow>
      (\<exists>resp d'. login cfg verify_password (Some d) now username email password =
                    (Inr resp, Some d') \<and>
                  user_of resp = \<lparr>i_username = u_username U, i_email = u_email U,
                                  i_role = get_or (u_role U) ''admin''\<rparr>))"
proof (intro conjI allI impI)
  fix name
  assume a: "username = Some name \<and> name \<noteq> [] \<and>
      (\<forall>u \<in> set (user d). u_username u \<noteq> Some name)"
  then have "find_one (login_query username email) (user d) = None"
    by (simp add: find_one_None_iff login_query_def)
  with a show "login cfg verify_password (Some d) now username email password =
        (Inl (HTTPException 401 ''Invalid credentials''), Some d)"
    by (simp add: login_def)
next
  fix addr
  assume a: "\<not> truthy_str username \<and> email = Some addr \<and> addr \<noteq> [] \<and>
      (\<forall>u \<in> set (user d). u_email u \<noteq> Some addr)"
  then have "find_one (login_query username email) (user d) = None"
    by (simp add: find_one_None_iff login_query_def)
  with a show "login cfg verify_password (Some d) now username email password =
        (Inl (HTTPException 401 ''Invalid credentials''), Some d)"
    by (simp add: login_def)
next
  fix pre U post
  assume a: "user d = pre @ U # post \<and>
      ((\<exists>name. username = Some name \<and> name \<noteq> [] \<and> u_username U = Some name \<and>
           (\<forall>u \<in> set pre. u_username u \<noteq> Some name)) \<or>
       (\<exists>addr. \<not> truthy_str username \<and> email = Some addr \<and> addr \<noteq> [] \<and>
           u_email U = Some addr \<and> (\<forall>u \<in> set pre. u_email u \<noteq> Some addr)))"
  then have ident: "truthy_str username \<or> truthy_str email"
    by auto
  from a have "(\<forall>u \<in> set pre. \<not> login_query username email u) \<and> login_query username email U"
    by (auto simp: login_query_def)
  then have "find_one (login_query username email) (pre @ U # post) = Some U"
    by (intro find_one_first) simp_all
  with a have found: "find_one (login_query username email) (user d) = Some U"
    by simp
  show "if verify_password password (get_or (u_password_hash U) '''')
       then login cfg verify_password (Some d) now username email password =
         (Inr \<lparr>access_token = Signed (JWT_SECRET cfg)
                  [(''uid'', JStr (str_id (u_id U))), (''username'', json_of_str (u_username U)),
                   (''role'', JStr (get_or (u_role U) ''admin'')),
                   (''exp'', JInt (now + 60 * ACCESS_EXPIRES_MIN cfg))],
                refresh_token_of = Signed (JWT_SECRET cfg)
                  [(''uid'', JStr (str_id (u_id U))), (''type'', JStr ''refresh''),
                   (''exp'', JInt (now + 86400 * REFRESH_EXPIRES_DAYS cfg))],
                user_of = \<lparr>i_username = u_username U, i_email = u_email U,
                           i_role = get_or (u_role U) ''admin''\<rparr>\<rparr>,
          Some (d\<lparr>refreshtoken := refreshtoken d @
             [\<lparr>rt_user_id = str_id (u_id U),
               rt_token = Signed (JWT_SECRET cfg)
                  [(''uid'', JStr (str_id (u_id U))), (''type'', JStr ''refresh''),
                   (''exp'', JInt (now + 86400 * REFRESH_EXPIRES_DAYS cfg))],
               rt_expires_at = now + 86400 * REFRESH_EXPIRES_DAYS cfg,
               rt_created_at = now\<rparr>]\<rparr>))
       else login cfg verify_password (Some d) now username email password =
         (Inl (HTTPException 401 ''Invalid credentials''), Some d)"
    using found ident
    by (simp add: login_def Let_def create_token_def jwt_encode_def minutes_def days_def
        insert_one_def)
next
  fix name U
  assume a: "username = Some name \<and> name \<noteq> [] \<and> U \<in> set (user d) \<and>
      u_username U = Some name \<and> distinct (map u_username (user d)) \<and>
      verify_password password (get_or (u_password_hash U) '''')"
  then have "find_one (login_query username email) (user d) = Some U"
    by (intro find_one_unique [where key = u_username]) (auto simp: login_query_def)
  with a show "\<exists>resp d'. login cfg verify_password (Some d) now username email password =
                    (Inr resp, Some d') \<and>
                  user_of resp = \<lparr>i_username = u_username U, i_email = u_email U,
                                  i_role = get_or (u_role U) ''admin''\<rparr>"
    by (simp add: login_def Let_def)
qed

text \<open>On the seeded store: an unknown username, an unknown e-mail address and a wrong
  password give the same error, and the right password returns the admin, by username and
  by e-mail address.\<close>

theorem login_first_match_witness:
  "login default_config example_verify (Some seeded_db) 1000 (Some ''nobody'') None ''bendahara'' =
     (Inl (HTTPException 401 ''Invalid credentials''), Some seeded_db) \<and>
   login default_config example_verify (Some seeded_db) 1000 None (Some ''nobody@example.org'')
     ''bendahara'' = (Inl (HTTPException 401 ''Invalid credentials''), Some seeded_db) \<and>
   login default_config example_verify (Some seeded_db) 1000 (Some ''admin'') None ''salah'' =
     (Inl (HTTPException 401 ''Invalid credentials''), Some seeded_db) \<and>
   login default_config example_verify (Some seeded_db) 1000 None (Some ''bendahara@gmail.com'')
     ''bendahara'' =
     (Inr \<lparr>access_token = admin_access, refresh_token_of = admin_refresh,
           user_of = \<lparr>i_username = Some ''admin'', i_email = Some ''bendahara@gmail.com'',
                      i_role = ''admin''\<rparr>\<rparr>,
      Some admin_session_db)"
proof -
  have users: "user seeded_db = [] @ admin # []"
    by (simp add: seeded_db_def empty_db_def)
  have 1: "login default_config example_verify (Some seeded_db) 1000 (Some ''nobody'') None
             ''bendahara'' = (Inl (HTTPException 401 ''Invalid credentials''), Some seeded_db)"
    using login_first_match [where username = "Some ''nobody''" and email = None
        and d = seeded_db and cfg = default_config and verify_password = example_verify
        and now = 1000 and password = "''bendahara''", THEN conjunct1, rule_format,
        where name = "''nobody''"]
    by (simp add: seeded_db_def empty_db_def admin_def)
  have 2: "login default_config example_verify (Some seeded_db) 1000 None
             (Some ''nobody@example.org'') ''bendahara'' =
             (Inl (HTTPException 401 ''Invalid credentials''), Some seeded_db)"
    using login_first_match [where username = None and email = "Some ''nobody@example.org''"
        and d = seeded_db and cfg = default_config and verify_password = example_verify
        and now = 1000 and password = "''bendahara''", THEN conjunct2, THEN conjunct1,
        rule_format, where addr = "''nobody@example.org''"]
    by (simp add: seeded_db_def empty_db_def admin_def)
  have 3: "login default_config example_verify (Some seeded_db) 1000 (Some ''admin'') None
             ''salah'' = (Inl (HTTPException 401 ''Invalid credentials''), Some seeded_db)"
    using login_first_match [where username = "Some ''admin''" and email = None
        and d = seeded_db and cfg = default_config and verify_password = example_verify
        and now = 1000 and password = "''salah''", THEN conjunct2, THEN conjunct2,
        THEN conjunct1, rule_format, where pre = "[]" and U = admin and post = "[]"] users
    by (simp add: admin_def example_verify_def get_or_def)
  have 4: "login default_config example_verify (Some seeded_db) 1000 None
             (Some ''bendahara@gmail.com'') ''bendahara'' =
     (Inr \<lparr>access_token = admin_access, refresh_token_of = admin_refresh,
           user_of = \<lparr>i_username = Some ''admin'', i_email = Some ''bendahara@gmail.com'',
                      i_role = ''admin''\<rparr>\<rparr>,
      Some admin_session_db)"
    using login_first_match [where username = None and email = "Some ''bendahara@gmail.com''"
        and d = seeded_db and cfg = default_config and verify_password = example_verify
        and now = 1000 and password = "''bendahara''", THEN conjunct2, THEN conjunct2,
        THEN conjunct1, rule_format, where pre = "[]" and U = admin and post = "[]"] users
    by (simp add: admin_def example_verify_def get_or_def default_config_def admin_access_def
        admin_refresh_def admin_session_db_def seeded_db_def empty_db_def)
  from 1 2 3 4 show ?thesis by simp
qed

text \<open>
  The claim as it is stated, that a login succeeds whenever the supplied pair matches the
  hash of a stored user, fails where two stored users carry the same identifier:
  \<open>guru2\<close> is stored under the supplied e-mail address and its hash verifies the supplied
  password, yet \<open>login\<close> examines \<open>guru1\<close> alone and answers with the credentials error.
\<close>

theorem login_second_match_counterexample:
  "guru2 \<in> set (user shared_email_db) \<and>
   u_email guru2 = Some ''guru@example.org'' \<and>
   example_verify ''dua'' (get_or (u_password_hash guru2) '''') \<and>
   login default_config example_verify (Some shared_email_db) 1000 None
     (Some ''guru@example.org'') ''dua'' =
     (Inl (HTTPException 401 ''Invalid credentials''), Some shared_email_db)"
  by (simp add: login_def login_query_def find_one_def shared_email_db_def empty_db_def
      guru1_def guru2_def example_verify_def get_or_def)

section \<open>The refresh operation\<close>

text \<open>
  Claim C4. \<open>refresh_token\<close> on a token that decodes, with a \<^verbatim>\<open>type\<close> claim other than
  \<^verbatim>\<open>refresh\<close>, fails with the invalid-token rejection of the handler (status 400, detail
  \<^verbatim>\<open>Invalid refresh token\<close>). On a token that decodes as a refresh token while no stored
  refresh-token document holds that exact token, it fails with the not-recognized
  rejection (status 401, detail \<^verbatim>\<open>Refresh token not recognized\<close>). It never succeeds on
  a token whose claims lack \<^verbatim>\<open>type = refresh\<close>, and in particular never on an access
  token that \<open>login\<close> issued, whatever the configuration, store and time. The store is left
  as it was in each case.
\<close>

theorem refresh_rejections:
  "(\<forall>payload. decode_token cfg now tok = Inr payload \<and> py_get payload ''type'' \<noteq> JStr ''refresh'' \<longrightarrow>
      refresh_token cfg db now tok = (Inl (HTTPException 400 ''Invalid refresh token''), db)) \<and>
   (\<forall>payload d. decode_token cfg now tok = Inr payload \<and> py_get payload ''type'' = JStr ''refresh'' \<and>
      db = Some d \<and> (\<forall>r \<in> set (refreshtoken d). rt_token r \<noteq> tok) \<longrightarrow>
      refresh_token cfg db now tok = (Inl (HTTPException 401 ''Refresh token not recognized''), db)) \<and>
   (\<forall>k cl. tok = Signed k cl \<and> py_get cl ''type'' \<noteq> JStr ''refresh'' \<longrightarrow>
      (\<exists>e. refresh_token cfg db now tok = (Inl e, db))) \<and>
   (\<forall>cfg0 vp db0 now0 username email password resp db1.
      login cfg0 vp db0 now0 username email password = (Inr resp, db1) \<longrightarrow>
      (\<exists>e. refresh_token cfg db now (access_token resp) = (Inl e, db)))"
proof (intro conjI allI impI)
  fix payload
  assume "decode_token cfg now tok = Inr payload \<and> py_get payload ''type'' \<noteq> JStr ''refresh''"
  then show "refresh_token cfg db now tok = (Inl (HTTPException 400 ''Invalid refresh token''), db)"
    by (simp add: refresh_token_def)
next
  fix payload d
  assume a: "decode_token cfg now tok = Inr payload \<and> py_get payload ''type'' = JStr ''refresh'' \<and>
      db = Some d \<and> (\<forall>r \<in> set (refreshtoken d). rt_token r \<noteq> tok)"
  then have "find_one (\<lambda>r. rt_token r = tok) (refreshtoken d) = None"
    by (simp add: find_one_None_iff)
  with a show "refresh_token cfg db now tok =
      (Inl (HTTPException 401 ''Refresh token not recognized''), db)"
    by (simp add: refresh_token_def collection_def)
next
  fix k cl
  assume a: "tok = Signed k cl \<and> py_get cl ''type'' \<noteq> JStr ''refresh''"
  show "\<exists>e. refresh_token cfg db now tok = (Inl e, db)"
  proof (cases "decode_token cfg now tok")
    case (Inl e)
    then show ?thesis by (simp add: refresh_token_def)
  next
    case (Inr payload)
    with a have "payload = cl" by (auto dest: decode_token_cases)
    with a Inr show ?thesis by (simp add: refresh_token_def)
  qed
next
  fix cfg0 :: config and vp db0 now0 username email password resp
    and db1 :: "'b database option"
  assume l: "login cfg0 vp db0 now0 username email password = (Inr resp, db1)"
  then obtain usr :: User where t: "access_token resp = Signed (JWT_SECRET cfg0)
           [(''uid'', JStr (str_id (u_id usr))), (''username'', json_of_str (u_username usr)),
            (''role'', JStr (get_or (u_role usr) ''admin'')),
            (''exp'', JInt (now0 + 60 * ACCESS_EXPIRES_MIN cfg0))]"
    using login_access_token_claims by blast
  show "\<exists>e. refresh_token cfg db now (access_token resp) = (Inl e, db)"
  proof (cases "decode_token cfg now (access_token resp)")
    case (Inl e)
    then show ?thesis by (simp add: refresh_token_def)
  next
    case (Inr payload)
    with t have "py_get payload ''type'' = JNull"
      by (auto dest!: decode_token_cases simp: py_get_def)
    with Inr show ?thesis by (simp add: refresh_token_def)
  qed
qed

text \<open>The admin's access token is turned away with status 400, and a well-signed refresh
  token that was never stored with status 401.\<close>

theorem refresh_rejections_witness:
  "refresh_token default_config (Some admin_session_db) 2000
     (Signed ''dev-secret-change-me''
        [(''uid'', JStr ''65a1b2c3d4e5f60718293a4b''), (''username'', JStr ''admin''),
         (''role'', JStr ''admin''), (''exp'', JInt 2800)]) =
     (Inl (HTTPException 400 ''Invalid refresh token''), Some admin_session_db) \<and>
   refresh_token default_config (Some admin_session_db) 2000
     (Signed ''dev-secret-change-me''
        [(''uid'', JStr ''65a1b2c3d4e5f60718293a4b''), (''type'', JStr ''refresh''),
         (''exp'', JInt 999999)]) =
     (Inl (HTTPException 401 ''Refresh token not recognized''), Some admin_session_db)"
proof -
  let ?access = "Signed ''dev-secret-change-me''
        [(''uid'', JStr ''65a1b2c3d4e5f60718293a4b''), (''username'', JStr ''admin''),
         (''role'', JStr ''admin''), (''exp'', JInt 2800)]"
  let ?stray = "Signed ''dev-secret-change-me''
        [(''uid'', JStr ''65a1b2c3d4e5f60718293a4b''), (''type'', JStr ''refresh''),
         (''exp'', JInt 999999)]"
  have a: "decode_token default_config 2000 ?access =
             Inr [(''uid'', JStr ''65a1b2c3d4e5f60718293a4b''), (''username'', JStr ''admin''),
                  (''role'', JStr ''admin''), (''exp'', JInt 2800)]"
    by (simp add: decode_token_def default_config_def)
  have b: "decode_token default_config 2000 ?stray =
             Inr [(''uid'', JStr ''65a1b2c3d4e5f60718293a4b''), (''type'', JStr ''refresh''),
                  (''exp'', JInt 999999)]"
    by (simp add: decode_token_def default_config_def)
  have c: "\<forall>r \<in> set (refreshtoken admin_session_db). rt_token r \<noteq> ?stray"
    by (simp add: admin_session_db_def seeded_db_def empty_db_def admin_refresh_def)
  have 1: "refresh_token default_config (Some admin_session_db) 2000 ?access =
     (Inl (HTTPException 400 ''Invalid refresh token''), Some admin_session_db)"
    using refresh_rejections [THEN conjunct1, rule_format,
        of default_config 2000 ?access _ "Some admin_session_db"] a
    by (simp add: py_get_def)
  have 2: "refresh_token default_config (Some admin_session_db) 2000 ?stray =
     (Inl (HTTPException 401 ''Refresh token not recognized''), Some admin_session_db)"
    using refresh_rejections [THEN conjunct2, THEN conjunct1, rule_format,
        of default_config 2000 ?stray _ "Some admin_session_db" admin_session_db] b c
    by (simp add: py_get_def)
  from 1 2 show ?thesis by simp
qed

text \<open>
  Claim C8. A successful \<open>refresh_token\<close> call returns the store it was given: no
  refresh-token document is inserted, deleted or replaced. The presented token therefore
  stays recognized: presented again at any later time at which it has not expired, it
  succeeds again, and again leaves the store as it was.
\<close>

theorem refresh_keeps_store:
  assumes "refresh_token cfg db now tok = (Inr access, db')"
  shows "db' = db \<and>
         (\<forall>now'. decode_token cfg now' tok \<noteq> Inl (HTTPException 401 ''Token expired'') \<longrightarrow>
            (\<exists>access'. refresh_token cfg db' now' tok = (Inr access', db')))"
proof -
  from assms obtain payload where dec: "decode_token cfg now tok = Inr payload"
    by (auto simp: refresh_token_def split: sum.splits)
  then have tok: "tok = Signed (JWT_SECRET cfg) payload"
    by (rule decode_token_cases)
  from assms dec have ty: "py_get payload ''type'' = JStr ''refresh''"
    by (auto simp: refresh_token_def split: if_splits)
  from assms dec ty obtain d token_doc where d: "db = Some d"
    and f: "find_one (\<lambda>r. rt_token r = tok) (refreshtoken d) = Some token_doc"
    by (auto simp: refresh_token_def collection_def split: option.splits)
  from assms dec ty d f have same: "db' = db"
    by (simp add: refresh_token_def collection_def Let_def)
  have "\<exists>access'. refresh_token cfg db' now' tok = (Inr access', db')"
    if live: "decode_token cfg now' tok \<noteq> Inl (HTTPException 401 ''Token expired'')" for now'
  proof -
    from dec live have "decode_token cfg now' tok = Inr payload"
      unfolding tok decode_token_Signed
      by (auto split: option.splits json.splits if_splits)
    with ty d f same show ?thesis
      by (simp add: refresh_token_def collection_def Let_def)
  qed
  with same show ?thesis by blast
qed

text \<open>The admin's refresh token, used at time 2000, is accepted again at time 5000 on the
  same store.\<close>

theorem refresh_keeps_store_witness:
  "refresh_token default_config (Some admin_session_db) 2000 admin_refresh =
     (Inr (Signed ''dev-secret-change-me''
        [(''uid'', JStr ''65a1b2c3d4e5f60718293a4b''), (''exp'', JInt 3800)]),
      Some admin_session_db) \<and>
   (\<exists>access'. refresh_token default_config (Some admin_session_db) 5000 admin_refresh =
      (Inr access', Some admin_session_db))"
proof -
  have first: "refresh_token default_config (Some admin_session_db) 2000 admin_refresh =
     (Inr (Signed ''dev-secret-change-me''
        [(''uid'', JStr ''65a1b2c3d4e5f60718293a4b''), (''exp'', JInt 3800)]),
      Some admin_session_db)"
    by (simp add: refresh_token_def decode_token_def admin_refresh_def default_config_def
        py_get_def collection_def find_one_def admin_session_db_def seeded_db_def empty_db_def
        create_token_def jwt_encode_def minutes_def Let_def)
  have live: "decode_token default_config 5000 admin_refresh \<noteq>
      Inl (HTTPException 401 ''Token expired'')"
    by (simp add: decode_token_def admin_refresh_def default_config_def)
  from refresh_keeps_store [OF first] live
  have "\<exists>access'. refresh_token default_config (Some admin_session_db) 5000 admin_refresh =
      (Inr access', Some admin_session_db)"
    by blast
  with first show ?thesis by simp
qed

section \<open>From login to the authenticated principal\<close>




section \<open>The type marker of refresh tokens\<close>

text \<open>
  Claim C1. The claim asks that a token whose claims carry \<^verbatim>\<open>type = refresh\<close> is never
  accepted by \<open>get_current_user\<close>. The handler \<open>refresh_token\<close> reads the \<^verbatim>\<open>type\<close> claim
  (line 148) and turns every token without the marker away, \<open>get_current_user\<close> never
  reads it. Here \<open>operator\<close> logs in at time 1000; the refresh token that this login issues
  carries \<^verbatim>\<open>type = refresh\<close>, and presented as the bearer credential at time 2000 it
  resolves to \<open>operator\<close>, as an access token would. On the seeded store a token
  signed under the configured secret that carries both \<^verbatim>\<open>type = refresh\<close> and a
  \<^verbatim>\<open>username\<close> claim resolves to the admin in the same way.
\<close>

theorem refresh_token_accepted_as_bearer:
  "login default_config example_verify (Some operator_db) 1000 (Some ''operator'') None ''rahasia'' =
     (Inr \<lparr>access_token = Signed ''dev-secret-change-me''
              [(''uid'', JStr ''u1''), (''username'', JStr ''operator''), (''role'', JStr ''admin''),
               (''exp'', JInt 2800)],
           refresh_token_of = operator_refresh,
           user_of = \<lparr>i_username = Some ''operator'', i_email = Some ''operator@example.org'',
                      i_role = ''admin''\<rparr>\<rparr>,
      Some operator_session_db) \<and>
   decode_token default_config 2000 operator_refresh =
     Inr [(''uid'', JStr ''u1''), (''type'', JStr ''refresh''), (''exp'', JInt 605800)] \<and>
   get_current_user default_config (Some operator_session_db) 2000 (Some operator_refresh) =
     Inr operator \<and>
   get_current_user default_config (Some seeded_db) 2000
     (Some (Signed ''dev-secret-change-me''
        [(''uid'', JStr ''65a1b2c3d4e5f60718293a4b''), (''username'', JStr ''admin''),
         (''type'', JStr ''refresh''), (''exp'', JInt 605800)])) = Inr admin"
  by (simp add: login_def login_query_def find_one_def create_token_def jwt_encode_def
      default_config_def example_verify_def operator_db_def operator_session_db_def empty_db_def
      operator_def operator_refresh_def get_or_def minutes_def days_def insert_one_def Let_def
      get_current_user_def decode_token_def py_get_def seeded_db_def admin_def)

section \<open>The claims of a refreshed access token\<close>

text \<open>
  Claim C3. The claim asks that every access token, also one minted by \<open>refresh_token\<close>,
  carries \<^verbatim>\<open>uid\<close>, \<^verbatim>\<open>username\<close>, \<^verbatim>\<open>role\<close> and the expiry. \<open>login\<close> mints such tokens
  (\<open>login_access_token_claims\<close>). \<open>refresh_token\<close> mints a token with \<^verbatim>\<open>uid\<close> and the
  expiry alone (\<open>refresh_access_token_claims\<close>): here the admin's stored refresh token is
  exchanged at time 2000, the new access token has neither \<^verbatim>\<open>username\<close> nor \<^verbatim>\<open>role\<close>, and
  \<open>get_current_user\<close> cannot resolve it to the admin, whose \<^verbatim>\<open>_id\<close> is an ObjectId.
\<close>

theorem refreshed_access_token_claims:
  "refresh_token default_config (Some admin_session_db) 2000 admin_refresh =
     (Inr (Signed ''dev-secret-change-me''
        [(''uid'', JStr ''65a1b2c3d4e5f60718293a4b''), (''exp'', JInt 3800)]),
      Some admin_session_db) \<and>
   map_of [(''uid'', JStr ''65a1b2c3d4e5f60718293a4b''), (''exp'', JInt 3800)] ''username'' = None \<and>
   map_of [(''uid'', JStr ''65a1b2c3d4e5f60718293a4b''), (''exp'', JInt 3800)] ''role'' = None \<and>
   get_current_user default_config (Some admin_session_db) 2001
     (Some (Signed ''dev-secret-change-me''
        [(''uid'', JStr ''65a1b2c3d4e5f60718293a4b''), (''exp'', JInt 3800)])) =
     Inl (HTTPException 401 ''User not found'')"
  by (simp add: refresh_token_def decode_token_def admin_refresh_def default_config_def
      py_get_def collection_def find_one_def admin_session_db_def seeded_db_def empty_db_def
      create_token_def jwt_encode_def minutes_def Let_def get_current_user_def admin_def)

section \<open>The summary\<close>

text \<open>
  Claim C5. \<open>summary\<close> returns a report for every available store and every choice of
  filters, and in it \<open>total_pemasukan\<close> is the sum of \<^verbatim>\<open>nominal\<close> over all transactions
  of \<^verbatim>\<open>jenis\<close> \<^verbatim>\<open>pemasukan\<close> (income) and \<open>total_pengeluaran\<close> the sum over all of \<^verbatim>\<open>jenis\<close>
  \<^verbatim>\<open>pengeluaran\<close> (expense): no filter enters either sum. For a store whose transactions
  are an income of 1000000 and an expense of 250000 the two totals are 1000000 and
  250000 under every choice of filters.
\<close>

theorem summary_totals_filter_independent:
  "(\<exists>r. summary (Some d) tahun bulan asrama kelas gender = Inr r \<and>
        total_pemasukan r = py_sum (map (\<lambda>x. get_or (tr_nominal x) 0)
          (filter (\<lambda>x. tr_jenis x = Some ''pemasukan'') (transaksi d))) \<and>
        total_pengeluaran r = py_sum (map (\<lambda>x. get_or (tr_nominal x) 0)
          (filter (\<lambda>x. tr_jenis x = Some ''pengeluaran'') (transaksi d)))) \<and>
   (\<exists>r. summary (Some (d0\<lparr>transaksi :=
             [\<lparr>tr_jenis = Some ''pemasukan'', tr_nominal = Some (1000000 :: int)\<rparr>,
              \<lparr>tr_jenis = Some ''pengeluaran'', tr_nominal = Some 250000\<rparr>]\<rparr>))
           tahun0 bulan0 asrama0 kelas0 gender0 = Inr r \<and>
        total_pemasukan r = 1000000 \<and> total_pengeluaran r = 250000)"
proof (rule conjI)
  obtain f where "summary_sy_filt d tahun bulan asrama kelas gender = Inr f"
    using summary_sy_filt_total by blast
  then show "\<exists>r. summary (Some d) tahun bulan asrama kelas gender = Inr r \<and>
        total_pemasukan r = py_sum (map (\<lambda>x. get_or (tr_nominal x) 0)
          (filter (\<lambda>x. tr_jenis x = Some ''pemasukan'') (transaksi d))) \<and>
        total_pengeluaran r = py_sum (map (\<lambda>x. get_or (tr_nominal x) 0)
          (filter (\<lambda>x. tr_jenis x = Some ''pengeluaran'') (transaksi d)))"
    by (simp add: summary_def Let_def find_docs_def)
next
  let ?d = "d0\<lparr>transaksi :=
             [\<lparr>tr_jenis = Some ''pemasukan'', tr_nominal = Some (1000000 :: int)\<rparr>,
              \<lparr>tr_jenis = Some ''pengeluaran'', tr_nominal = Some 250000\<rparr>]\<rparr>"
  obtain f where "summary_sy_filt ?d tahun0 bulan0 asrama0 kelas0 gender0 = Inr f"
    using summary_sy_filt_total by blast
  then show "\<exists>r. summary (Some ?d) tahun0 bulan0 asrama0 kelas0 gender0 = Inr r \<and>
        total_pemasukan r = 1000000 \<and> total_pengeluaran r = 250000"
    by (simp add: summary_def Let_def find_docs_def py_sum_def get_or_def)
qed

text \<open>The two totals under a year, a month and a gender filter.\<close>

theorem summary_totals_filter_independent_witness:
  "\<exists>r. summary (Some (empty_db\<lparr>transaksi :=
             [\<lparr>tr_jenis = Some ''pemasukan'', tr_nominal = Some 1000000\<rparr>,
              \<lparr>tr_jenis = Some ''pengeluaran'', tr_nominal = Some 250000\<rparr>]\<rparr>))
           (Some 2024) (Some 3) None None (Some ''Putra'') = Inr r \<and>
        total_pemasukan r = 1000000 \<and> total_pengeluaran r = 250000"
  using summary_totals_filter_independent [where ?d0.0 = empty_db and ?tahun0.0 = "Some 2024"
      and ?bulan0.0 = "Some 3" and ?asrama0.0 = None and ?kelas0.0 = None
      and ?gender0.0 = "Some ''Putra''", THEN conjunct2]
  by simp

text \<open>
  Claim C9. For every available store and every choice of filters, the payments that the
  payment query selects are split by status: \<open>pembayaran_syariah_lunas\<close> counts those
  with status \<^verbatim>\<open>Lunas\<close>, \<open>pembayaran_syariah_belum\<close> counts all others (an absent status
  among them), and the two counts add up to the number of selected payments. The payroll
  records that the payroll query selects are split the same way by status \<^verbatim>\<open>Dibayar\<close>:
  \<open>total_gaji_bulan_ini\<close> sums \<^verbatim>\<open>total_bersih\<close> over the paid ones,
  \<open>total_gaji_tertunda\<close> over all others, and, as multisets, the two parts together are
  the selected records, so that each record enters exactly one of the two sums.
\<close>

theorem summary_partitions:
  "\<exists>f r. summary_sy_filt d tahun bulan asrama kelas gender = Inr f \<and>
     summary (Some d) tahun bulan asrama kelas gender = Inr r \<and>
     pembayaran_syariah_lunas r + pembayaran_syariah_belum r =
       length (find_docs (sy_matches f) (pembayaransyariah d)) \<and>
     pembayaran_syariah_lunas r =
       length (filter (\<lambda>p. ps_status p = Some ''Lunas'')
                 (find_docs (sy_matches f) (pembayaransyariah d))) \<and>
     pembayaran_syariah_belum r =
       length (filter (\<lambda>p. \<not> ps_status p = Some ''Lunas'')
                 (find_docs (sy_matches f) (pembayaransyariah d))) \<and>
     total_gaji_bulan_ini r = py_sum (map (\<lambda>g. get_or (gp_total_bersih g) 0)
       (filter (\<lambda>g. gp_status g = Some ''Dibayar'')
          (find_docs (gaji_matches (summary_gaji_filt tahun bulan)) (gajipegawai d)))) \<and>
     total_gaji_tertunda r = py_sum (map (\<lambda>g. get_or (gp_total_bersih g) 0)
       (filter (\<lambda>g. \<not> gp_status g = Some ''Dibayar'')
          (find_docs (gaji_matches (summary_gaji_filt tahun bulan)) (gajipegawai d)))) \<and>
     mset (filter (\<lambda>g. gp_status g = Some ''Dibayar'')
            (find_docs (gaji_matches (summary_gaji_filt tahun bulan)) (gajipegawai d))) +
     mset (filter (\<lambda>g. \<not> gp_status g = Some ''Dibayar'')
            (find_docs (gaji_matches (summary_gaji_filt tahun bulan)) (gajipegawai d))) =
     mset (find_docs (gaji_matches (summary_gaji_filt tahun bulan)) (gajipegawai d))"
proof -
  obtain f where f: "summary_sy_filt d tahun bulan asrama kelas gender = Inr f"
    using summary_sy_filt_total by blast
  have len: "length (filter P xs) + length (filter (\<lambda>x. \<not> P x) xs) = length xs"
    for P :: "'b \<Rightarrow> bool" and xs
    by (rule sum_length_filter_compl)
  show ?thesis
    using f by (simp add: summary_def Let_def len)
qed

text \<open>On \<open>ledger_db\<close>, under the filters year 2024 and month 3, one payment is counted as
  paid and two as unpaid.\<close>

theorem summary_partitions_witness:
  "\<exists>r. summary (Some ledger_db) (Some 2024) (Some 3) None None None = Inr r \<and>
     pembayaran_syariah_lunas r = 1 \<and> pembayaran_syariah_belum r = 2 \<and>
     pembayaran_syariah_lunas r + pembayaran_syariah_belum r = 3 \<and>
     total_gaji_bulan_ini r = 2000000 \<and> total_gaji_tertunda r = 2200000"
proof -
  have f: "summary_sy_filt ledger_db (Some 2024) (Some 3) None None None =
      Inr \<lparr>sy_tahun = Some 2024, sy_bulan = Some ''Maret'', sy_santri_id = None\<rparr>"
    by (simp add: summary_sy_filt_def month_name_eq MONTHS_def Let_def)
  have g: "summary_gaji_filt (Some 2024) (Some 3) = \<lparr>gf_tahun = Some 2024, gf_bulan = Some 3\<rparr>"
    by (simp add: summary_gaji_filt_def Let_def)
  have p: "find_docs (sy_matches \<lparr>sy_tahun = Some 2024, sy_bulan = Some ''Maret'',
              sy_santri_id = None\<rparr>) (pembayaransyariah ledger_db) = pembayaransyariah ledger_db"
    by (simp add: find_docs_def sy_matches_def field_matches_def ledger_db_def empty_db_def)
  have q: "find_docs (gaji_matches \<lparr>gf_tahun = Some 2024, gf_bulan = Some 3\<rparr>)
              (gajipegawai ledger_db) = gajipegawai ledger_db"
    by (simp add: find_docs_def gaji_matches_def field_matches_def ledger_db_def empty_db_def)
  from summary_partitions [of ledger_db "Some 2024" "Some 3" None None None]
  obtain r where r: "summary (Some ledger_db) (Some 2024) (Some 3) None None None = Inr r"
    and lunas: "pembayaran_syariah_lunas r =
       length (filter (\<lambda>p. ps_status p = Some ''Lunas'') (pembayaransyariah ledger_db))"
    and belum: "pembayaran_syariah_belum r =
       length (filter (\<lambda>p. \<not> ps_status p = Some ''Lunas'') (pembayaransyariah ledger_db))"
    and paid: "total_gaji_bulan_ini r = py_sum (map (\<lambda>g. get_or (gp_total_bersih g) 0)
       (filter (\<lambda>g. gp_status g = Some ''Dibayar'') (gajipegawai ledger_db)))"
    and late: "total_gaji_tertunda r = py_sum (map (\<lambda>g. get_or (gp_total_bersih g) 0)
       (filter (\<lambda>g. \<not> gp_status g = Some ''Dibayar'') (gajipegawai ledger_db)))"
    unfolding f g
    by (auto simp: p q)
  have "pembayaran_syariah_lunas r = 1" "pembayaran_syariah_belum r = 2"
    "total_gaji_bulan_ini r = 2000000" "total_gaji_tertunda r = 2200000"
    unfolding lunas belum paid late
    by (simp_all add: ledger_db_def empty_db_def py_sum_def get_or_def)
  with r show ?thesis by simp
qed



section \<open>The sentinel of the payment query\<close>

text \<open>
  Claim C6. The claim asks that a santri filter which selects no santri yields a payment
  query that matches no payment, in every store. Line 368 then puts the text
  \<^verbatim>\<open>__none__\<close> under \<^verbatim>\<open>santri_id\<close>, and a query for a text matches the payments that carry
  it. Here no santri is stored, the gender filter \<^verbatim>\<open>Putri\<close> selects none, and the one
  stored payment, whose \<^verbatim>\<open>santri_id\<close> is \<^verbatim>\<open>__none__\<close>, is matched and reported as unpaid
  with its amount outstanding.
\<close>

theorem sentinel_matches_payment:
  "find_docs (s_matches \<lparr>sf_gender = Some ''Putri'', sf_asrama = None, sf_kelas = None\<rparr>)
     (santri sentinel_db) = [] \<and>
   summary_sy_filt sentinel_db None None None None (Some ''Putri'') =
     Inr \<lparr>sy_tahun = None, sy_bulan = None, sy_santri_id = Some (Is ''__none__'')\<rparr> \<and>
   find_docs (sy_matches \<lparr>sy_tahun = None, sy_bulan = None, sy_santri_id = Some (Is ''__none__'')\<rparr>)
     (pembayaransyariah sentinel_db) = pembayaransyariah sentinel_db \<and>
   summary (Some sentinel_db) None None None None (Some ''Putri'') =
     Inr \<lparr>total_santri_aktif = 0, total_pemasukan = 0, total_pengeluaran = 0,
          pembayaran_syariah_lunas = 0, pembayaran_syariah_belum = 1,
          jumlah_tunggakan = 300000, total_gaji_bulan_ini = 0, total_gaji_tertunda = 0\<rparr>"
  by (simp add: summary_def summary_sy_filt_def sentinel_db_def empty_db_def find_docs_def
      count_documents_def sy_matches_def field_matches_def py_sum_def get_or_def keep_def Let_def
      summary_gaji_filt_def)

end
